theory Spec2Isabelle
  imports Main "HOL-Library.Word"
begin

section \<open>The trigger channel: \<open>Execd.Gather\<close> (inputs/execd, POSIX build)\<close>

text \<open>
  \<open>Gather\<close> reads two fields of the \<open>Execd\<close> value: the process handle and the
  configured \<open>Signal\<close> string. The handle is a chain of three pointers
  (\<open>e.process\<close>, \<open>e.process.Cmd\<close>, \<open>e.process.Cmd.Process\<close>), each of which may be
  nil, and an input stream \<open>e.process.Stdin\<close> of interface type. The objects behind the
  pointers belong to the Go runtime and the operating system; they are modelled by the
  state that \<open>Gather\<close>'s calls can change and by the error each call would return.
  The type of \<open>e.process\<close> is declared outside the sources; its fields are those that
  \<open>Gather\<close> reads, and \<open>Stdin\<close> is taken to hold a stream whenever the handle exists.
\<close>

datatype syscall_Signal = SIGHUP | SIGUSR1 | SIGUSR2

record os_Process =
  delivered :: "syscall_Signal list"   \<comment> \<open>signals the process has been sent, oldest first\<close>
  signal_err :: "string option"        \<comment> \<open>the error \<open>Signal\<close> returns, if delivery fails\<close>

record WriteCloser =
  is_os_File :: bool                   \<comment> \<open>the dynamic type of the stream is \<open>*os.File\<close>\<close>
  write_deadline :: "int option"       \<comment> \<open>deadline in force, in nanoseconds\<close>
  deadline_err :: "string option"      \<comment> \<open>the error \<open>SetWriteDeadline\<close> returns, if any\<close>
  written :: string                    \<comment> \<open>bytes accepted by the stream so far\<close>
  write_err :: "string option"         \<comment> \<open>the error a write returns, if it fails\<close>

record exec_Cmd =
  Process :: "os_Process option"

record process_Process =
  Cmd :: "exec_Cmd option"
  Stdin :: WriteCloser

record Execd =
  process :: "process_Process option"
  Signal :: string

datatype gather_error =
    ErrorWritingToStdin string   \<comment> \<open>\<open>"Error writing to stdin: %w"\<close>\<close>
  | InvalidSignal string         \<comment> \<open>\<open>"invalid signal: %s"\<close>\<close>

definition Second :: int where
  "Second = 1000000000"

definition os_Process_Signal :: "os_Process \<Rightarrow> syscall_Signal \<Rightarrow> string option \<times> os_Process" where
  "os_Process_Signal p sig =
     (case signal_err p of
        Some err \<Rightarrow> (Some err, p)
      | None \<Rightarrow> (None, p\<lparr>delivered := delivered p @ [sig]\<rparr>))"

definition SetWriteDeadline :: "WriteCloser \<Rightarrow> int \<Rightarrow> string option \<times> WriteCloser" where
  "SetWriteDeadline w t =
     (case deadline_err w of
        Some err \<Rightarrow> (Some err, w)
      | None \<Rightarrow> (None, w\<lparr>write_deadline := Some t\<rparr>))"

definition WriteString :: "WriteCloser \<Rightarrow> string \<Rightarrow> string option \<times> WriteCloser" where
  "WriteString w s =
     (case write_err w of
        Some err \<Rightarrow> (Some err, w)
      | None \<Rightarrow> (None, w\<lparr>written := written w @ s\<rparr>))"

text \<open>Writing the changed objects back: Go mutates them through the pointers.\<close>

definition with_Process :: "Execd \<Rightarrow> process_Process \<Rightarrow> exec_Cmd \<Rightarrow> os_Process \<Rightarrow> Execd" where
  "with_Process e p c osp = e\<lparr>process := Some (p\<lparr>Cmd := Some (c\<lparr>Process := Some osp\<rparr>)\<rparr>)\<rparr>"

definition with_Stdin :: "Execd \<Rightarrow> process_Process \<Rightarrow> WriteCloser \<Rightarrow> Execd" where
  "with_Stdin e p w = e\<lparr>process := Some (p\<lparr>Stdin := w\<rparr>)\<rparr>"

text \<open>
  \<open>Gather now e\<close>: the error returned (\<open>None\<close> for nil) and the \<open>Execd\<close> with every
  object its calls changed. \<open>now\<close> is the reading of \<open>time.Now()\<close>. The results of
  the three \<open>Signal\<close> calls and of \<open>SetWriteDeadline\<close> are discarded, as in the source
  (\<open>_ = ...\<close>).
\<close>

definition Gather :: "int \<Rightarrow> Execd \<Rightarrow> gather_error option \<times> Execd" where
  "Gather now e =
     (case process e of
        None \<Rightarrow> (None, e)
      | Some p \<Rightarrow>
         (case Cmd p of
            None \<Rightarrow> (None, e)
          | Some c \<Rightarrow>
             (case Process c of
                None \<Rightarrow> (None, e)
              | Some osProcess \<Rightarrow>
                  if Signal e = ''SIGHUP'' then
                    (None, with_Process e p c (snd (os_Process_Signal osProcess SIGHUP)))
                  else if Signal e = ''SIGUSR1'' then
                    (None, with_Process e p c (snd (os_Process_Signal osProcess SIGUSR1)))
                  else if Signal e = ''SIGUSR2'' then
                    (None, with_Process e p c (snd (os_Process_Signal osProcess SIGUSR2)))
                  else if Signal e = ''STDIN'' then
                    (let osStdin = (if is_os_File (Stdin p)
                                    then snd (SetWriteDeadline (Stdin p) (now + 1 * Second))
                                    else Stdin p);
                         (err, stdin') = WriteString osStdin [CHR 0x0A]
                     in case err of
                          Some x \<Rightarrow> (Some (ErrorWritingToStdin x), with_Stdin e p stdin')
                        | None \<Rightarrow> (None, with_Stdin e p stdin'))
                  else if Signal e = ''none'' then (None, e)
                  else (Some (InvalidSignal (Signal e)), e))))"

text \<open>The OS process behind the handle, when all three pointers are set.\<close>

definition handle :: "Execd \<Rightarrow> os_Process option" where
  "handle e =
     (case process e of
        None \<Rightarrow> None
      | Some p \<Rightarrow> (case Cmd p of None \<Rightarrow> None | Some c \<Rightarrow> Process c))"

text \<open>Concrete values used to run the definitions.\<close>

definition pipe0 :: WriteCloser where
  "pipe0 = \<lparr>is_os_File = True, write_deadline = None, deadline_err = None,
            written = [], write_err = None\<rparr>"

definition proc0 :: os_Process where
  "proc0 = \<lparr>delivered = [], signal_err = None\<rparr>"

definition execd0 :: "string \<Rightarrow> WriteCloser \<Rightarrow> os_Process \<Rightarrow> Execd" where
  "execd0 sig w osp =
     \<lparr>process = Some \<lparr>Cmd = Some \<lparr>Process = Some osp\<rparr>, Stdin = w\<rparr>, Signal = sig\<rparr>"

section \<open>Samples and the codec\<close>

text \<open>
  The dynamic types a field value can have. The guest program below switches on
  \<open>float64\<close> and \<open>int64\<close> and treats every other type alike. An \<open>int64\<close> is a
  64-bit word, so \<open>t *= 2\<close> wraps; a \<open>float64\<close> is kept as its 64 bits, and the one
  floating-point operation of the sources, multiplication by two, is a parameter
  (\<open>float64_mul2\<close>) of the functions that use it.
\<close>

datatype field_value =
    Float64 "64 word"
  | Int64 "64 word"
  | Uint64 "64 word"
  | Str string
  | Boolean bool

text \<open>
  Modelled from the spec: the Sample of section 3 (the metric package is not among the
  sources): a name, a set of tags (key to string), a set of fields (key to typed value)
  and a timestamp, here in nanoseconds.
\<close>

record metric =
  Name :: string
  Tags :: "string \<rightharpoonup> string"
  Fields :: "string \<rightharpoonup> field_value"
  Time :: int

text \<open>Modelled from the spec: the plugin capability \<open>get field\<close> of a Sample (section 3).\<close>

definition GetField :: "metric \<Rightarrow> string \<Rightarrow> field_value option" where
  "GetField m key = Fields m key"

text \<open>Modelled from the spec: the plugin capability \<open>set field\<close> of a Sample (section 3).\<close>

definition AddField :: "metric \<Rightarrow> string \<Rightarrow> field_value \<Rightarrow> metric" where
  "AddField m key v = m\<lparr>Fields := (Fields m)(key \<mapsto> v)\<rparr>"

text \<open>Modelled from the spec: reading a tag of a Sample (section 3), as the Shim test does.\<close>

definition GetTag :: "metric \<Rightarrow> string \<Rightarrow> string option" where
  "GetTag m key = Tags m key"

text \<open>Modelled from the spec: the plugin capability \<open>set tag\<close> of a Sample (section 3).\<close>

definition AddTag :: "metric \<Rightarrow> string \<Rightarrow> string \<Rightarrow> metric" where
  "AddTag m key v = m\<lparr>Tags := (Tags m)(key \<mapsto> v)\<rparr>"

text \<open>
  The codec is an external collaborator and enters every function as parameters. A
  stream is the list of its framed records, of an arbitrary type \<open>'w\<close>; \<open>decode\<close> is
  what the stream parser's \<open>Next\<close> returns for the next record, and an exhausted stream
  gives \<open>EOF\<close>. The serializer of the sources can fail
  (\<open>serialize :: metric \<Rightarrow> string + 'w\<close>, the error text on the left); the encoder of
  the spec cannot (\<open>encode :: metric \<Rightarrow> 'w\<close>).
\<close>

datatype influx_error = EOF | ParseError string | OtherError string

section \<open>The external test process: \<open>runCountMultiplierProgram\<close>\<close>

text \<open>
  How a process ends (\<open>Returned\<close>: the function returned to its caller; \<open>OsExit n\<close>:
  \<open>os.Exit(n)\<close>), what one pass of a guest's loop does, and what a whole run leaves on
  the two output streams.
\<close>

datatype exit = Returned | OsExit int

datatype 'w iteration =
    Continue "'w list"   \<comment> \<open>records written to standard output; the loop goes on\<close>
  | Return               \<comment> \<open>the loop returns\<close>
  | Exit int string      \<comment> \<open>a line on standard error, then \<open>os.Exit\<close> with the code\<close>

record 'w process_result =
  stdout :: "'w list"
  stderr :: "string list"
  status :: exit

text \<open>The name \<open>%T\<close> prints for a field value.\<close>

definition type_name :: "field_value \<Rightarrow> string" where
  "type_name c =
     (case c of
        Float64 _ \<Rightarrow> ''float64''
      | Int64 _ \<Rightarrow> ''int64''
      | Uint64 _ \<Rightarrow> ''uint64''
      | Str _ \<Rightarrow> ''string''
      | Boolean _ \<Rightarrow> ''bool'')"

text \<open>The end of the loop body: serialize the metric and print it.\<close>

definition Serialize_and_print :: "(metric \<Rightarrow> string + 'w) \<Rightarrow> metric \<Rightarrow> 'w iteration" where
  "Serialize_and_print serialize metric =
     (case serialize metric of
        Inl err \<Rightarrow> Exit 1 (''ERR '' @ err @ [CHR 0x0A])
      | Inr b \<Rightarrow> Continue [b])"

text \<open>
  One pass of the \<open>for\<close> loop of \<open>runCountMultiplierProgram\<close>, given the result \<open>r\<close>
  of \<open>parser.Next()\<close>.
\<close>

definition countMultiplierIteration ::
  "(metric \<Rightarrow> string + 'w) \<Rightarrow> (64 word \<Rightarrow> 64 word) \<Rightarrow> influx_error + metric \<Rightarrow> 'w iteration" where
  "countMultiplierIteration serialize float64_mul2 r =
     (case r of
        Inl err \<Rightarrow>
          (case err of
             EOF \<Rightarrow> Return
           | ParseError perr \<Rightarrow> Exit 1 (''parse ERR '' @ perr @ [CHR 0x0A])
           | OtherError msg \<Rightarrow> Exit 1 (''ERR '' @ msg @ [CHR 0x0A]))
      | Inr metric \<Rightarrow>
          (case GetField metric ''count'' of
             None \<Rightarrow> Exit 1 (''metric has no count field'' @ [CHR 0x0A])
           | Some c \<Rightarrow>
               (case c of
                  Float64 t \<Rightarrow>
                    Serialize_and_print serialize
                      (AddField metric ''count'' (Float64 (float64_mul2 t)))
                | Int64 t \<Rightarrow>
                    Serialize_and_print serialize (AddField metric ''count'' (Int64 (t * 2)))
                | _ \<Rightarrow>
                    Exit 1 (''count is not an unknown type, it's a '' @ type_name c
                            @ [CHR 0x0A]))))"

text \<open>
  The loop, on the records of standard input. On the empty stream \<open>parser.Next()\<close>
  gives \<open>EOF\<close> and the function returns.
\<close>

fun runCountMultiplierProgram ::
  "('w \<Rightarrow> influx_error + metric) \<Rightarrow> (metric \<Rightarrow> string + 'w) \<Rightarrow> (64 word \<Rightarrow> 64 word)
     \<Rightarrow> 'w list \<Rightarrow> 'w process_result" where
  "runCountMultiplierProgram decode serialize float64_mul2 [] =
     \<lparr>stdout = [], stderr = [], status = Returned\<rparr>"
| "runCountMultiplierProgram decode serialize float64_mul2 (w # rest) =
     (case countMultiplierIteration serialize float64_mul2 (decode w) of
        Return \<Rightarrow> \<lparr>stdout = [], stderr = [], status = Returned\<rparr>
      | Exit code msg \<Rightarrow> \<lparr>stdout = [], stderr = [msg], status = OsExit code\<rparr>
      | Continue out \<Rightarrow>
          (let r = runCountMultiplierProgram decode serialize float64_mul2 rest
           in r\<lparr>stdout := out @ stdout r\<rparr>))"

text \<open>
  \<open>TestMain\<close> with the flag \<open>-countmultiplier\<close> set: the exit status of the process.
  When the program returns, \<open>TestMain\<close> calls \<open>os.Exit(0)\<close>.
\<close>

definition TestMain_countmultiplier ::
  "('w \<Rightarrow> influx_error + metric) \<Rightarrow> (metric \<Rightarrow> string + 'w) \<Rightarrow> (64 word \<Rightarrow> 64 word)
     \<Rightarrow> 'w list \<Rightarrow> int" where
  "TestMain_countmultiplier decode serialize float64_mul2 stdin =
     (case status (runCountMultiplierProgram decode serialize float64_mul2 stdin) of
        Returned \<Rightarrow> 0
      | OsExit code \<Rightarrow> code)"

text \<open>
  The transform the program applies to a sample, where it applies one: the switch on the
  type of the field \<open>count\<close>. It is used to state what the program writes.
\<close>

definition countMultiplier :: "(64 word \<Rightarrow> 64 word) \<Rightarrow> metric \<Rightarrow> metric option" where
  "countMultiplier float64_mul2 metric =
     (case GetField metric ''count'' of
        Some (Float64 t) \<Rightarrow> Some (AddField metric ''count'' (Float64 (float64_mul2 t)))
      | Some (Int64 t) \<Rightarrow> Some (AddField metric ''count'' (Int64 (t * 2)))
      | _ \<Rightarrow> None)"

text \<open>The samples of \<open>TestExternalProcessorWorks\<close>: the one submitted and the one expected.\<close>

definition test_metric :: "int \<Rightarrow> metric" where
  "test_metric now =
     \<lparr>Name = ''test'', Tags = [''city'' \<mapsto> ''Toronto''],
      Fields = [''population'' \<mapsto> Int64 6000000, ''count'' \<mapsto> Int64 1], Time = now\<rparr>"

definition expected_metric :: "int \<Rightarrow> metric" where
  "expected_metric orig =
     \<lparr>Name = ''test'', Tags = [''city'' \<mapsto> ''Toronto''],
      Fields = [''population'' \<mapsto> Int64 6000000, ''count'' \<mapsto> Int64 2], Time = orig\<rparr>"

section \<open>The Shim\<close>

text \<open>The processor of \<open>TestProcessorShim\<close> and the sample the test sends.\<close>

definition testProcessor_Apply :: "metric list \<Rightarrow> metric list" where
  "testProcessor_Apply in_metrics = map (\<lambda>metric. AddTag metric ''hi'' ''mom'') in_metrics"

definition thing_metric :: "int \<Rightarrow> metric" where
  "thing_metric now =
     \<lparr>Name = ''thing'', Tags = [''a'' \<mapsto> ''b''], Fields = [''v'' \<mapsto> Int64 1], Time = now\<rparr>"

text \<open>
  A codec over a wire of strings that tells apart only whether a sample carries the tag
  \<open>hi\<close>; it is used to run the Shim on the sample of its test.
\<close>

definition two_line_encode :: "metric \<Rightarrow> string" where
  "two_line_encode m = (if GetTag m ''hi'' = None then ''plain'' else ''tagged'')"

definition two_line_decode :: "string \<Rightarrow> influx_error + metric" where
  "two_line_decode w =
     (if w = ''plain'' then Inr (thing_metric 9)
      else if w = ''tagged'' then Inr (AddTag (thing_metric 9) ''hi'' ''mom'')
      else Inl (ParseError w))"

text \<open>
  Modelled from the spec: the single sequential loop of a guest process (section 4.2;
  the shim package is not among the sources). \<open>react\<close> is one pass of the loop on the
  next record of the input stream: the records it writes, in order, before the next
  record is read. A clean end of the input stream ends the loop with success.
\<close>

fun guest_loop :: "('w \<Rightarrow> 'w iteration) \<Rightarrow> 'w list \<Rightarrow> 'w process_result" where
  "guest_loop react [] = \<lparr>stdout = [], stderr = [], status = Returned\<rparr>"
| "guest_loop react (w # rest) =
     (case react w of
        Return \<Rightarrow> \<lparr>stdout = [], stderr = [], status = Returned\<rparr>
      | Exit code msg \<Rightarrow> \<lparr>stdout = [], stderr = [msg], status = OsExit code\<rparr>
      | Continue out \<Rightarrow> (let r = guest_loop react rest in r\<lparr>stdout := out @ stdout r\<rparr>))"

text \<open>
  Modelled from the spec: one pass of the Shim's loop (section 4.2): decode one record,
  call \<open>Apply\<close> on it, encode each result and write it. A decode error that is not a
  clean end of stream is logged and ends the process with a non-zero status; the spec
  fixes no code, and 1 is used, as in the guest program of the sources.
\<close>

definition ShimIteration ::
  "('w \<Rightarrow> influx_error + metric) \<Rightarrow> (metric \<Rightarrow> 'w) \<Rightarrow> (metric list \<Rightarrow> metric list)
     \<Rightarrow> 'w \<Rightarrow> 'w iteration" where
  "ShimIteration decode encode Apply w =
     (case decode w of
        Inl EOF \<Rightarrow> Return
      | Inl (ParseError msg) \<Rightarrow> Exit 1 msg
      | Inl (OtherError msg) \<Rightarrow> Exit 1 msg
      | Inr m \<Rightarrow> Continue (map encode (Apply [m])))"

text \<open>
  Modelled from the spec: the Shim's run call \<open>RunProcessor\<close> (section 4.2) on the
  records of its input stream, for a plugin with the transform \<open>Apply\<close>.
\<close>

definition RunProcessor ::
  "('w \<Rightarrow> influx_error + metric) \<Rightarrow> (metric \<Rightarrow> 'w) \<Rightarrow> (metric list \<Rightarrow> metric list)
     \<Rightarrow> 'w list \<Rightarrow> 'w process_result" where
  "RunProcessor decode encode Apply stdin = guest_loop (ShimIteration decode encode Apply) stdin"

text \<open>
  Two notions used to state properties of a loop: a record on which a pass goes on to
  the next record, and the records the passes over a list of records write.
\<close>

definition continues :: "('w \<Rightarrow> 'w iteration) \<Rightarrow> 'w \<Rightarrow> bool" where
  "continues react w = (case react w of Continue _ \<Rightarrow> True | _ \<Rightarrow> False)"

definition emitted :: "('w \<Rightarrow> 'w iteration) \<Rightarrow> 'w list \<Rightarrow> 'w list" where
  "emitted react ws = concat (map (\<lambda>w. case react w of Continue out \<Rightarrow> out | _ \<Rightarrow> []) ws)"

section \<open>The Process Supervisor\<close>

text \<open>
  The processor plugin that owns the external process (\<open>Start\<close>, \<open>Add\<close>, \<open>Stop\<close>) and
  the process package it uses are not among the sources; only their test is. The state
  of the supervisor and its submit operation are therefore modelled from sections 3,
  4.1 and 7 of the spec.
\<close>

text \<open>Modelled from the spec: the Supervisor State of section 3.\<close>

datatype phase = Stopped | Starting | Running | Stopping | Crashed

text \<open>
  Modelled from the spec: a Process Generation (section 3): one spawned process with
  its input stream (records written by the host and not yet read by the process, and
  whether the host has closed it) and its output stream (records written by the process
  and not yet read by the Reader), and the exit status once the process has ended.
\<close>

record 'w generation =
  inbox :: "'w list"
  input_closed :: bool
  exited :: "int option"
  outbox :: "'w list"

text \<open>
  Modelled from the spec: the Process Supervisor (sections 3 and 4.1): its state, at
  most one live generation, the output records of ended generations that their Readers
  have still to deliver, and the sink.
\<close>

record 'w supervisor =
  phase :: phase
  gen :: "'w generation option"
  retired :: "'w list"
  sink :: "metric list"

text \<open>Modelled from the spec: the error kinds of section 7 that the host API returns.\<close>

datatype host_error = StartupError | WriteError

text \<open>Modelled from the spec: the Supervisor as created by its owner, empty and \<open>Stopped\<close> (section 3).\<close>

definition init :: "'w supervisor" where
  "init = \<lparr>phase = Stopped, gen = None, retired = [], sink = []\<rparr>"

text \<open>Modelled from the spec: a process generation is alive (section 3): it exists and has not exited.\<close>

definition alive :: "'w supervisor \<Rightarrow> bool" where
  "alive s = (case gen s of None \<Rightarrow> False | Some g \<Rightarrow> exited g = None)"

text \<open>
  Modelled from the spec: the generation \<open>g\<close> is found to have ended while \<open>Running\<close>
  (sections 3 and 4.1): the state is \<open>Crashed\<close>, no generation is live, and what is left
  on the output stream stays with the Reader of the ended generation.
\<close>

definition crashed :: "'w supervisor \<Rightarrow> 'w generation \<Rightarrow> 'w supervisor" where
  "crashed s g = s\<lparr>phase := Crashed, gen := None, retired := retired s @ outbox g\<rparr>"

text \<open>
  Modelled from the spec: \<open>Submit(sample)\<close> (section 4.1 and the loss policy of section
  3): the sample is encoded and written to the input stream of the live generation. With
  no generation, or a process that has exited (a broken pipe, which escalates the
  generation to \<open>Crashed\<close>), or a closed input stream, the result is a \<open>WriteError\<close>.
\<close>

definition Submit_sample ::
  "(metric \<Rightarrow> 'w) \<Rightarrow> metric \<Rightarrow> 'w supervisor \<Rightarrow> (host_error + unit) \<times> 'w supervisor" where
  "Submit_sample encode m s =
     (case gen s of
        None \<Rightarrow> (Inl WriteError, s)
      | Some g \<Rightarrow>
          if exited g \<noteq> None then
            (Inl WriteError, if phase s = Running then crashed s g else s)
          else if input_closed g then (Inl WriteError, s)
          else (Inr (), s\<lparr>gen := Some (g\<lparr>inbox := inbox g @ [encode m]\<rparr>)\<rparr>))"

text \<open>
  A supervisor whose process has exited with status 1 and has not been restarted yet.
\<close>

definition broken :: "'w supervisor" where
  "broken = \<lparr>phase = Running,
             gen = Some \<lparr>inbox = [], input_closed = False, exited = Some 1, outbox = []\<rparr>,
             retired = [], sink = []\<rparr>"

section \<open>Properties of \<open>Gather\<close>\<close>

lemma handle_SomeD:
  "handle e = Some osp \<Longrightarrow>
   \<exists>p c. process e = Some p \<and> Cmd p = Some c \<and> Process c = Some osp"
  by (auto simp: handle_def split: option.splits)

lemma Gather_STDIN_result:
  assumes "process e = Some p" and "Cmd p = Some c" and "Process c = Some osp"
    and "Signal e = ''STDIN''"
  shows "Gather now e =
           (map_option ErrorWritingToStdin (write_err (Stdin p)),
            e\<lparr>process := Some (p\<lparr>Stdin := (Stdin p)
               \<lparr>write_deadline :=
                  (if is_os_File (Stdin p) \<and> deadline_err (Stdin p) = None
                   then Some (now + 1000000000) else write_deadline (Stdin p)),
                written :=
                  (if write_err (Stdin p) = None
                   then written (Stdin p) @ [CHR 0x0A] else written (Stdin p))\<rparr>\<rparr>)\<rparr>)"
proof -
  let ?w = "if is_os_File (Stdin p)
            then snd (SetWriteDeadline (Stdin p) (now + 1 * Second)) else Stdin p"
  have w: "?w = (Stdin p)\<lparr>write_deadline :=
                  (if is_os_File (Stdin p) \<and> deadline_err (Stdin p) = None
                   then Some (now + 1000000000) else write_deadline (Stdin p))\<rparr>"
    by (cases "deadline_err (Stdin p)") (simp_all add: SetWriteDeadline_def Second_def)
  have err: "write_err ?w = write_err (Stdin p)"
    by (simp add: w)
  have wr: "written ?w = written (Stdin p)"
    by (simp add: w)
  have g: "Gather now e =
             (case WriteString ?w [CHR 0x0A] of
                (Some x, stdin') \<Rightarrow> (Some (ErrorWritingToStdin x), with_Stdin e p stdin')
              | (None, stdin') \<Rightarrow> (None, with_Stdin e p stdin'))"
    using assms by (simp add: Gather_def Let_def split: prod.splits option.splits)
  show ?thesis
  proof (cases "write_err (Stdin p)")
    case None
    then have "WriteString ?w [CHR 0x0A] = (None, ?w\<lparr>written := written (Stdin p) @ [CHR 0x0A]\<rparr>)"
      using err wr by (simp add: WriteString_def)
    with None show ?thesis
      unfolding g by (simp add: w with_Stdin_def)
  next
    case (Some x)
    then have "WriteString ?w [CHR 0x0A] = (Some x, ?w)"
      using err by (simp add: WriteString_def)
    with Some show ?thesis
      unfolding g by (simp add: w with_Stdin_def)
  qed
qed

text \<open>
  Claim C10. Whenever the process pointer, its command or the command's OS process is
  nil, \<open>Gather\<close> returns nil and changes nothing: no signal is sent, nothing is written,
  and the \<open>Signal\<close> string is not looked at, so an invalid value gives no error either.
\<close>

theorem Gather_without_handle:
  assumes "process e = None
           \<or> (\<exists>p. process e = Some p \<and> Cmd p = None)
           \<or> (\<exists>p c. process e = Some p \<and> Cmd p = Some c \<and> Process c = None)"
  shows "Gather now e = (None, e)"
  using assms by (auto simp: Gather_def)

theorem Gather_without_handle_witness:
  "Gather 5 \<lparr>process = None, Signal = ''bogus''\<rparr> = (None, \<lparr>process = None, Signal = ''bogus''\<rparr>)
   \<and> Gather 5 \<lparr>process = Some \<lparr>Cmd = None, Stdin = pipe0\<rparr>, Signal = ''bogus''\<rparr>
       = (None, \<lparr>process = Some \<lparr>Cmd = None, Stdin = pipe0\<rparr>, Signal = ''bogus''\<rparr>)
   \<and> Gather 5 \<lparr>process = Some \<lparr>Cmd = Some \<lparr>Process = None\<rparr>, Stdin = pipe0\<rparr>, Signal = ''STDIN''\<rparr>
       = (None, \<lparr>process = Some \<lparr>Cmd = Some \<lparr>Process = None\<rparr>, Stdin = pipe0\<rparr>, Signal = ''STDIN''\<rparr>)"
  using Gather_without_handle [of "\<lparr>process = None, Signal = ''bogus''\<rparr>" 5]
        Gather_without_handle [of "\<lparr>process = Some \<lparr>Cmd = None, Stdin = pipe0\<rparr>, Signal = ''bogus''\<rparr>" 5]
        Gather_without_handle [of "\<lparr>process = Some \<lparr>Cmd = Some \<lparr>Process = None\<rparr>, Stdin = pipe0\<rparr>, Signal = ''STDIN''\<rparr>" 5]
  by simp


text \<open>
  Claim C6, as the source has it. A selector outside
  \<open>{SIGHUP, SIGUSR1, SIGUSR2, STDIN, none}\<close> is not checked once and for all: it reaches
  the \<open>default\<close> branch of the switch on every call made while a process handle exists,
  and every such call returns \<open>invalid signal: <value>\<close> and leaves the \<open>Execd\<close> as it
  was (so the next call reports it again).
\<close>

theorem Gather_invalid_signal:
  assumes "handle e = Some osp"
    and "Signal e \<notin> {''SIGHUP'', ''SIGUSR1'', ''SIGUSR2'', ''STDIN'', ''none''}"
  shows "Gather now e = (Some (InvalidSignal (Signal e)), e)"
proof -
  from assms(1) obtain p c
    where "process e = Some p" "Cmd p = Some c" "Process c = Some osp"
    by (auto dest: handle_SomeD)
  with assms(2) show ?thesis
    by (simp add: Gather_def)
qed

theorem Gather_invalid_signal_witness:
  "handle (execd0 ''SIGKILL'' pipe0 proc0) = Some proc0
   \<and> Gather 7 (execd0 ''SIGKILL'' pipe0 proc0)
       = (Some (InvalidSignal ''SIGKILL''), execd0 ''SIGKILL'' pipe0 proc0)"
proof -
  have h: "handle (execd0 ''SIGKILL'' pipe0 proc0) = Some proc0"
    by (simp add: handle_def execd0_def)
  have s: "Signal (execd0 ''SIGKILL'' pipe0 proc0)
             \<notin> {''SIGHUP'', ''SIGUSR1'', ''SIGUSR2'', ''STDIN'', ''none''}"
    by (simp add: execd0_def)
  have "Signal (execd0 ''SIGKILL'' pipe0 proc0) = ''SIGKILL''"
    by (simp add: execd0_def)
  with Gather_invalid_signal [OF h s, of 7] h show ?thesis
    by simp
qed

text \<open>
  Two trigger attempts in a row with the selector \<open>SIGTERM\<close> and a live handle: both
  return the error, so the value is reported on each attempt, not once.
\<close>

theorem Gather_invalid_signal_reported_twice:
  "fst (Gather 0 (execd0 ''SIGTERM'' pipe0 proc0)) = Some (InvalidSignal ''SIGTERM'')
   \<and> fst (Gather 1 (snd (Gather 0 (execd0 ''SIGTERM'' pipe0 proc0))))
       = Some (InvalidSignal ''SIGTERM'')"
  by (simp add: Gather_def execd0_def)

text \<open>
  Claim C7, as the source has it. With the selector \<open>STDIN\<close> and a live handle,
  \<open>Gather\<close> asks for a write deadline of exactly one second from now only when the input
  stream is an \<open>*os.File\<close> (and the deadline is in force only if that request succeeds);
  it then makes one write of the single byte \<open>0x0A\<close>, and returns an error if and only if
  that write fails. Nothing else changes.
\<close>

theorem Gather_STDIN:
  assumes "process e = Some p" and "Cmd p = Some c" and "Process c = Some osp"
    and "Signal e = ''STDIN''"
  shows "Gather now e =
           (map_option ErrorWritingToStdin (write_err (Stdin p)),
            e\<lparr>process := Some (p\<lparr>Stdin := (Stdin p)
               \<lparr>write_deadline :=
                  (if is_os_File (Stdin p) \<and> deadline_err (Stdin p) = None
                   then Some (now + 1000000000) else write_deadline (Stdin p)),
                written :=
                  (if write_err (Stdin p) = None
                   then written (Stdin p) @ [CHR 0x0A] else written (Stdin p))\<rparr>\<rparr>)\<rparr>)"
  using assms by (rule Gather_STDIN_result)

theorem Gather_STDIN_witness:
  "Gather 42 (execd0 ''STDIN'' pipe0 proc0)
     = (None, execd0 ''STDIN''
                (pipe0\<lparr>write_deadline := Some 1000000042, written := [CHR 0x0A]\<rparr>) proc0)"
proof -
  have "Gather 42 (execd0 ''STDIN'' pipe0 proc0) =
           (map_option ErrorWritingToStdin (write_err pipe0),
            (execd0 ''STDIN'' pipe0 proc0)
              \<lparr>process := Some (\<lparr>Cmd = Some \<lparr>Process = Some proc0\<rparr>, Stdin = pipe0\<rparr>
                 \<lparr>Stdin := pipe0
               \<lparr>write_deadline :=
                  (if is_os_File pipe0 \<and> deadline_err pipe0 = None
                   then Some (42 + 1000000000) else write_deadline pipe0),
                written :=
                  (if write_err pipe0 = None
                   then written pipe0 @ [CHR 0x0A] else written pipe0)\<rparr>\<rparr>)\<rparr>)"
    using Gather_STDIN [of "execd0 ''STDIN'' pipe0 proc0"
                           "\<lparr>Cmd = Some \<lparr>Process = Some proc0\<rparr>, Stdin = pipe0\<rparr>"
                           "\<lparr>Process = Some proc0\<rparr>" proc0 42]
    by (simp add: execd0_def)
  then show ?thesis
    by (simp add: execd0_def pipe0_def)
qed

text \<open>
  The input stream need not be an \<open>*os.File\<close>. On a stream of another type the same call
  writes the newline and sets no deadline at all.
\<close>

theorem Gather_STDIN_without_deadline:
  "Gather 42 (execd0 ''STDIN''
               \<lparr>is_os_File = False, write_deadline = None, deadline_err = None,
                written = [], write_err = None\<rparr> proc0)
     = (None, execd0 ''STDIN''
               \<lparr>is_os_File = False, write_deadline = None, deadline_err = None,
                written = [CHR 0x0A], write_err = None\<rparr> proc0)"
  by (simp add: Gather_def execd0_def WriteString_def with_Stdin_def)

text \<open>
  Claim C8, as the source has it. With a live handle, a failure to deliver the trigger
  is reported only for the selector \<open>STDIN\<close>, where the failed write is returned as
  \<open>Gather\<close>'s error; a failed \<open>SIGHUP\<close>, \<open>SIGUSR1\<close> or \<open>SIGUSR2\<close> is discarded and
  \<open>Gather\<close> returns nil. In either case the failing call leaves the \<open>Execd\<close> and the
  objects it refers to exactly as they were, except that the \<open>STDIN\<close> path may first
  have set the write deadline of the input stream.
\<close>

theorem Gather_delivery_failure:
  assumes "process e = Some p" and "Cmd p = Some c" and "Process c = Some osp"
  shows "(Signal e \<in> {''SIGHUP'', ''SIGUSR1'', ''SIGUSR2''} \<and> signal_err osp \<noteq> None
            \<longrightarrow> Gather now e = (None, e))
       \<and> (\<forall>x. Signal e = ''STDIN'' \<and> write_err (Stdin p) = Some x
            \<longrightarrow> Gather now e =
                  (Some (ErrorWritingToStdin x),
                   e\<lparr>process := Some (p\<lparr>Stdin := (Stdin p)
                      \<lparr>write_deadline :=
                         (if is_os_File (Stdin p) \<and> deadline_err (Stdin p) = None
                          then Some (now + 1000000000) else write_deadline (Stdin p))\<rparr>\<rparr>)\<rparr>))"
proof -
  have e: "e\<lparr>process := Some (p\<lparr>Cmd := Some (c\<lparr>Process := Some osp\<rparr>)\<rparr>)\<rparr> = e"
    using assms by simp
  have sig: "Signal e \<in> {''SIGHUP'', ''SIGUSR1'', ''SIGUSR2''} \<and> signal_err osp \<noteq> None
            \<longrightarrow> Gather now e = (None, e)"
    using assms e
    by (auto simp: Gather_def os_Process_Signal_def with_Process_def)
  have wr: "Gather now e =
                  (Some (ErrorWritingToStdin x),
                   e\<lparr>process := Some (p\<lparr>Stdin := (Stdin p)
                      \<lparr>write_deadline :=
                         (if is_os_File (Stdin p) \<and> deadline_err (Stdin p) = None
                          then Some (now + 1000000000) else write_deadline (Stdin p))\<rparr>\<rparr>)\<rparr>)"
    if "Signal e = ''STDIN''" "write_err (Stdin p) = Some x" for x
  proof -
    have "(Stdin p)\<lparr>write_deadline :=
                         (if is_os_File (Stdin p) \<and> deadline_err (Stdin p) = None
                          then Some (now + 1000000000) else write_deadline (Stdin p)),
                     written := written (Stdin p)\<rparr>
          = (Stdin p)\<lparr>write_deadline :=
                         (if is_os_File (Stdin p) \<and> deadline_err (Stdin p) = None
                          then Some (now + 1000000000) else write_deadline (Stdin p))\<rparr>"
      by simp
    with Gather_STDIN_result [OF assms that(1), of now] that(2) show ?thesis
      by simp
  qed
  from sig wr show ?thesis by blast
qed

theorem Gather_delivery_failure_witness:
  "Gather 3 (execd0 ''SIGUSR1'' pipe0 (proc0\<lparr>signal_err := Some ''os: process already finished''\<rparr>))
     = (None, execd0 ''SIGUSR1'' pipe0 (proc0\<lparr>signal_err := Some ''os: process already finished''\<rparr>))
   \<and> Gather 3 (execd0 ''STDIN'' (pipe0\<lparr>write_err := Some ''broken pipe''\<rparr>) proc0)
     = (Some (ErrorWritingToStdin ''broken pipe''),
        execd0 ''STDIN''
          (pipe0\<lparr>write_err := Some ''broken pipe'', write_deadline := Some 1000000003\<rparr>) proc0)"
proof -
  let ?osp = "proc0\<lparr>signal_err := Some ''os: process already finished''\<rparr>"
  let ?e = "execd0 ''SIGUSR1'' pipe0 ?osp"
  have p: "process ?e = Some \<lparr>Cmd = Some \<lparr>Process = Some ?osp\<rparr>, Stdin = pipe0\<rparr>"
    by (simp add: execd0_def)
  have c: "Cmd \<lparr>Cmd = Some \<lparr>Process = Some ?osp\<rparr>, Stdin = pipe0\<rparr> = Some \<lparr>Process = Some ?osp\<rparr>"
    by simp
  have o: "Process \<lparr>Process = Some ?osp\<rparr> = Some ?osp"
    by simp
  have s: "Signal ?e \<in> {''SIGHUP'', ''SIGUSR1'', ''SIGUSR2''} \<and> signal_err ?osp \<noteq> None"
    by (simp add: execd0_def proc0_def)
  from Gather_delivery_failure [OF p c o, of 3] s
  have first: "Gather 3 ?e = (None, ?e)"
    by blast
  let ?w = "pipe0\<lparr>write_err := Some ''broken pipe''\<rparr>"
  let ?f = "execd0 ''STDIN'' ?w proc0"
  have p': "process ?f = Some \<lparr>Cmd = Some \<lparr>Process = Some proc0\<rparr>, Stdin = ?w\<rparr>"
    by (simp add: execd0_def)
  have c': "Cmd \<lparr>Cmd = Some \<lparr>Process = Some proc0\<rparr>, Stdin = ?w\<rparr> = Some \<lparr>Process = Some proc0\<rparr>"
    by simp
  have o': "Process \<lparr>Process = Some proc0\<rparr> = Some proc0"
    by simp
  have s': "Signal ?f = ''STDIN''
            \<and> write_err (Stdin \<lparr>Cmd = Some \<lparr>Process = Some proc0\<rparr>, Stdin = ?w\<rparr>) = Some ''broken pipe''"
    by (simp add: execd0_def)
  from Gather_delivery_failure [OF p' c' o', of 3] s'
  have "Gather 3 ?f =
          (Some (ErrorWritingToStdin ''broken pipe''),
           ?f\<lparr>process := Some (\<lparr>Cmd = Some \<lparr>Process = Some proc0\<rparr>, Stdin = ?w\<rparr>\<lparr>Stdin := ?w
              \<lparr>write_deadline :=
                 (if is_os_File ?w \<and> deadline_err ?w = None
                  then Some (3 + 1000000000) else write_deadline ?w)\<rparr>\<rparr>)\<rparr>)"
    by simp
  then have second: "Gather 3 ?f =
          (Some (ErrorWritingToStdin ''broken pipe''),
           execd0 ''STDIN''
             (pipe0\<lparr>write_err := Some ''broken pipe'', write_deadline := Some 1000000003\<rparr>) proc0)"
    by (simp add: execd0_def pipe0_def)
  from first second show ?thesis
    by blast
qed

text \<open>
  A \<open>SIGHUP\<close> trigger whose delivery fails: \<open>Gather\<close> returns nil and the state is the
  one it started from, so the failure is neither returned nor recorded anywhere.
\<close>

theorem Gather_signal_failure_unreported:
  "Gather 0 (execd0 ''SIGHUP'' pipe0 \<lparr>delivered = [], signal_err = Some ''operation not permitted''\<rparr>)
     = (None, execd0 ''SIGHUP'' pipe0 \<lparr>delivered = [], signal_err = Some ''operation not permitted''\<rparr>)"
  by (simp add: Gather_def execd0_def os_Process_Signal_def with_Process_def)

section \<open>Properties of the guest loops\<close>

lemma runCountMultiplierProgram_guest_loop:
  "runCountMultiplierProgram decode serialize mul2 stdin
     = guest_loop (\<lambda>w. countMultiplierIteration serialize mul2 (decode w)) stdin"
  by (induction stdin) (simp_all split: iteration.splits)

lemma emitted_Nil [simp]: "emitted react [] = []"
  by (simp add: emitted_def)

lemma emitted_append [simp]: "emitted react (xs @ ys) = emitted react xs @ emitted react ys"
  by (simp add: emitted_def)

lemma emitted_Cons_Continue:
  "react w = Continue out \<Longrightarrow> emitted react (w # ws) = out @ emitted react ws"
  by (simp add: emitted_def)

lemma guest_loop_good_prefix:
  "\<forall>w\<in>set pre. continues react w \<Longrightarrow>
   guest_loop react (pre @ rest)
     = (guest_loop react rest)\<lparr>stdout := emitted react pre @ stdout (guest_loop react rest)\<rparr>"
  by (induction pre) (auto simp: emitted_def continues_def Let_def split: iteration.splits)

lemma guest_loop_good:
  "\<forall>w\<in>set ws. continues react w \<Longrightarrow>
   guest_loop react ws = \<lparr>stdout = emitted react ws, stderr = [], status = Returned\<rparr>"
  using guest_loop_good_prefix [of ws react "[]"] by simp

text \<open>
  The program of the sources is an order-preserving one-to-one guest: when every record
  decodes, every sample has a \<open>count\<close> the switch accepts and every result serializes,
  it writes the serialized transform of each sample, in order, and returns.
\<close>

lemma countMultiplierIteration_transform:
  "countMultiplier mul2 m = Some m' \<Longrightarrow>
   countMultiplierIteration serialize mul2 (Inr m) = Serialize_and_print serialize m'"
  by (auto simp: countMultiplier_def countMultiplierIteration_def
           split: option.splits field_value.splits)

lemma runCountMultiplierProgram_elementwise:
  assumes "map decode stdin = map Inr ms"
    and "\<forall>m\<in>set ms. countMultiplier mul2 m = Some (f m)"
    and "\<forall>m\<in>set ms. serialize (f m) = Inr (encode (f m))"
  shows "runCountMultiplierProgram decode serialize mul2 stdin
           = \<lparr>stdout = map (\<lambda>m. encode (f m)) ms, stderr = [], status = Returned\<rparr>"
  using assms
proof (induction stdin arbitrary: ms)
  case Nil
  then show ?case by simp
next
  case (Cons w ws)
  then obtain m ms' where ms: "ms = m # ms'" and w: "decode w = Inr m"
    and rest: "map decode ws = map Inr ms'"
    by (cases ms) auto
  from Cons.prems(2,3) ms
  have "countMultiplierIteration serialize mul2 (Inr m) = Continue [encode (f m)]"
    by (simp add: countMultiplierIteration_transform [of mul2 m "f m"] Serialize_and_print_def)
  moreover from Cons.prems(2,3) ms
  have "\<forall>m\<in>set ms'. countMultiplier mul2 m = Some (f m)"
    "\<forall>m\<in>set ms'. serialize (f m) = Inr (encode (f m))"
    by simp_all
  ultimately show ?case
    using Cons.IH [OF rest] w ms by simp
qed

text \<open>
  How the program of the sources ends. After any records \<open>pre\<close> that the loop goes on
  from: if the input stream ends there, the loop returns and the process ends with
  status 0; if instead the next record gives a decode error other than the clean end of
  stream, the process exits with status 1, and its output is that for \<open>pre\<close> whatever
  follows the bad record.
\<close>

lemma runCountMultiplierProgram_end_of_stream:
  assumes "\<forall>w\<in>set pre. continues (\<lambda>w. countMultiplierIteration serialize mul2 (decode w)) w"
  shows "status (runCountMultiplierProgram decode serialize mul2 pre) = Returned
       \<and> TestMain_countmultiplier decode serialize mul2 pre = 0
       \<and> (\<forall>w rest e. decode w = Inl e \<and> e \<noteq> EOF \<longrightarrow>
            status (runCountMultiplierProgram decode serialize mul2 (pre @ w # rest)) = OsExit 1
            \<and> TestMain_countmultiplier decode serialize mul2 (pre @ w # rest) = 1
            \<and> stdout (runCountMultiplierProgram decode serialize mul2 (pre @ w # rest))
                = stdout (runCountMultiplierProgram decode serialize mul2 pre))"
proof -
  let ?react = "\<lambda>w. countMultiplierIteration serialize mul2 (decode w)"
  have ok: "runCountMultiplierProgram decode serialize mul2 pre
              = \<lparr>stdout = emitted ?react pre, stderr = [], status = Returned\<rparr>"
    unfolding runCountMultiplierProgram_guest_loop by (rule guest_loop_good [OF assms])
  have bad: "status (guest_loop ?react (w # rest)) = OsExit 1
             \<and> stdout (guest_loop ?react (w # rest)) = []"
    if "decode w = Inl e" "e \<noteq> EOF" for w rest e
    using that by (cases e) (simp_all add: countMultiplierIteration_def)
  have "status (runCountMultiplierProgram decode serialize mul2 (pre @ w # rest)) = OsExit 1
        \<and> stdout (runCountMultiplierProgram decode serialize mul2 (pre @ w # rest))
            = emitted ?react pre"
    if "decode w = Inl e" "e \<noteq> EOF" for w rest e
    unfolding runCountMultiplierProgram_guest_loop guest_loop_good_prefix [OF assms]
    using bad [OF that] by simp
  with ok show ?thesis
    by (simp add: TestMain_countmultiplier_def)
qed

text \<open>
  The program of the sources on the ten samples of \<open>TestExternalProcessorWorks\<close>: it
  writes the ten expected samples, \<open>count\<close> doubled and times \<open>T\<close> to \<open>T+9\<close>, in
  order, and returns.
\<close>

lemma runCountMultiplierProgram_test_samples:
  assumes "map decode stdin = map (\<lambda>i. Inr (test_metric (T + int i))) [0..<10]"
    and "\<forall>i<10. serialize (expected_metric (T + int i)) = Inr (encode (expected_metric (T + int i)))"
  shows "runCountMultiplierProgram decode serialize mul2 stdin
           = \<lparr>stdout = map (\<lambda>i. encode (expected_metric (T + int i))) [0..<10],
              stderr = [], status = Returned\<rparr>"
proof -
  let ?ms = "map (\<lambda>i. test_metric (T + int i)) [0..<10]"
  let ?f = "\<lambda>m. expected_metric (Time m)"
  have t: "Time (test_metric t) = t" for t
    by (simp add: test_metric_def)
  have d: "map decode stdin = map Inr ?ms"
    using assms(1) by (simp add: comp_def)
  have c: "countMultiplier mul2 (test_metric t) = Some (expected_metric t)" for t
    by (simp add: countMultiplier_def GetField_def AddField_def test_metric_def
          expected_metric_def)
  have a: "\<forall>m\<in>set ?ms. countMultiplier mul2 m = Some (?f m)"
    using c t by auto
  have b: "\<forall>m\<in>set ?ms. serialize (?f m) = Inr (encode (?f m))"
    using assms(2) t by auto
  have "map (\<lambda>m. encode (?f m)) ?ms = map (\<lambda>i. encode (expected_metric (T + int i))) [0..<10]"
    using t by (simp add: comp_def)
  with runCountMultiplierProgram_elementwise [OF d a b] show ?thesis
    by simp
qed

text \<open>
  Claim C2, for the Shim as the spec describes it. When every record of the input
  stream decodes (to the samples \<open>ms\<close>, in order) and the transform is one-to-one
  (\<open>Apply\<close> of one sample is one sample, \<open>f\<close> of it), the records written to the output
  stream are the encodings of \<open>f\<close> of each sample, in the same order, none dropped, and
  the run call returns.
\<close>

theorem RunProcessor_elementwise:
  assumes "map decode stdin = map Inr ms" and "\<forall>m\<in>set ms. Apply [m] = [f m]"
  shows "RunProcessor decode encode Apply stdin
           = \<lparr>stdout = map (\<lambda>m. encode (f m)) ms, stderr = [], status = Returned\<rparr>"
  using assms unfolding RunProcessor_def
proof (induction stdin arbitrary: ms)
  case Nil
  then show ?case by simp
next
  case (Cons w ws)
  then obtain m ms' where ms: "ms = m # ms'" and w: "decode w = Inr m"
    and rest: "map decode ws = map Inr ms'"
    by (cases ms) auto
  from Cons.prems(2) ms have "Apply [m] = [f m]" and "\<forall>m\<in>set ms'. Apply [m] = [f m]"
    by simp_all
  with Cons.IH [OF rest] w ms show ?case
    by (simp add: ShimIteration_def)
qed

theorem RunProcessor_elementwise_witness:
  "RunProcessor Inr (\<lambda>m. m) testProcessor_Apply [thing_metric 1, test_metric 2]
     = \<lparr>stdout = [AddTag (thing_metric 1) ''hi'' ''mom'', AddTag (test_metric 2) ''hi'' ''mom''],
        stderr = [], status = Returned\<rparr>"
proof -
  have d: "map Inr [thing_metric 1, test_metric 2]
             = (map Inr [thing_metric 1, test_metric 2] :: (influx_error + metric) list)"
    by simp
  have a: "\<forall>m\<in>set [thing_metric 1, test_metric 2].
             testProcessor_Apply [m] = [AddTag m ''hi'' ''mom'']"
    by (simp add: testProcessor_Apply_def)
  from RunProcessor_elementwise [OF d a, of "\<lambda>m. m"] show ?thesis
    by simp
qed

text \<open>
  Claim C5, for the Shim as the spec describes it, with the processor of the Shim test
  (it adds the tag \<open>hi=mom\<close>), for any sample \<open>m\<close> and a codec that decodes its
  encoding of \<open>m\<close> and of \<open>m\<close> with the tag added. The host writes the one encoded
  sample and closes the stream: the Shim writes exactly one record, that record decodes
  to a sample whose tag \<open>hi\<close> is \<open>mom\<close>, and the run call returns.
\<close>

theorem RunProcessor_adds_tag:
  assumes "decode (encode m) = Inr m"
    and "decode (encode (AddTag m ''hi'' ''mom'')) = Inr (AddTag m ''hi'' ''mom'')"
  shows "\<exists>line mOut.
           RunProcessor decode encode testProcessor_Apply [encode m]
             = \<lparr>stdout = [line], stderr = [], status = Returned\<rparr>
           \<and> decode line = Inr mOut \<and> GetTag mOut ''hi'' = Some ''mom''"
proof -
  let ?m = "AddTag m ''hi'' ''mom''"
  have "RunProcessor decode encode testProcessor_Apply [encode m]
          = \<lparr>stdout = [encode ?m], stderr = [], status = Returned\<rparr>"
    using assms(1) by (simp add: RunProcessor_def ShimIteration_def testProcessor_Apply_def)
  moreover have "GetTag ?m ''hi'' = Some ''mom''"
    by (simp add: GetTag_def AddTag_def)
  ultimately show ?thesis
    using assms(2) by blast
qed

text \<open>
  The sample of the Shim test over a wire of strings, with a codec of two lines: one for
  a sample that carries the tag and one for a sample that does not.
\<close>

theorem RunProcessor_adds_tag_witness:
  "\<exists>line mOut.
     RunProcessor two_line_decode two_line_encode testProcessor_Apply
         [two_line_encode (thing_metric 9)]
       = \<lparr>stdout = [line], stderr = [], status = Returned\<rparr>
     \<and> line = ''tagged''
     \<and> two_line_decode line = Inr mOut \<and> GetTag mOut ''hi'' = Some ''mom''"
proof -
  have p: "two_line_encode (thing_metric 9) = ''plain''"
    by (simp add: two_line_encode_def GetTag_def thing_metric_def)
  have t: "two_line_encode (AddTag (thing_metric 9) ''hi'' ''mom'') = ''tagged''"
    by (simp add: two_line_encode_def GetTag_def AddTag_def)
  have h1: "two_line_decode (two_line_encode (thing_metric 9)) = Inr (thing_metric 9)"
    unfolding p by (simp add: two_line_decode_def)
  have h2: "two_line_decode (two_line_encode (AddTag (thing_metric 9) ''hi'' ''mom''))
              = Inr (AddTag (thing_metric 9) ''hi'' ''mom'')"
    unfolding t by (simp add: two_line_decode_def)
  from RunProcessor_adds_tag
         [where decode = two_line_decode and encode = two_line_encode
            and m = "thing_metric 9", OF h1 h2]
  obtain line mOut where
    r: "RunProcessor two_line_decode two_line_encode testProcessor_Apply
          [two_line_encode (thing_metric 9)]
          = \<lparr>stdout = [line], stderr = [], status = Returned\<rparr>"
    and d: "two_line_decode line = Inr mOut" and g: "GetTag mOut ''hi'' = Some ''mom''"
    by blast
  have "RunProcessor two_line_decode two_line_encode testProcessor_Apply
          [two_line_encode (thing_metric 9)]
          = \<lparr>stdout = [''tagged''], stderr = [], status = Returned\<rparr>"
    using h1 t by (simp add: RunProcessor_def ShimIteration_def testProcessor_Apply_def)
  with r have "line = ''tagged''"
    by simp
  with r d g show ?thesis
    by blast
qed

section \<open>Properties of the Process Supervisor\<close>

text \<open>
  Claim C9, for the supervisor as the spec describes it. A sample submitted while no
  process generation is alive is rejected with a \<open>WriteError\<close>. The state after the
  call is the same whatever the sample was, it has either no generation or the one it
  had, untouched, and the sink is as before: the sample is kept nowhere, so nothing can
  deliver or retry it later, whatever generation starts.
\<close>

theorem Submit_rejected_without_generation:
  assumes "\<not> alive s"
  shows "fst (Submit_sample encode m s) = Inl WriteError
       \<and> snd (Submit_sample encode m s) = snd (Submit_sample encode m' s)
       \<and> (gen (snd (Submit_sample encode m s)) = None
          \<or> gen (snd (Submit_sample encode m s)) = gen s)
       \<and> sink (snd (Submit_sample encode m s)) = sink s"
  using assms
  by (auto simp: alive_def Submit_sample_def crashed_def split: option.splits)

theorem Submit_rejected_without_generation_witness:
  "\<not> alive (init :: metric supervisor)
   \<and> Submit_sample (\<lambda>m. m) (test_metric 1) init = (Inl WriteError, init)
   \<and> \<not> alive (broken :: metric supervisor)
   \<and> Submit_sample (\<lambda>m. m) (test_metric 1) broken
       = (Inl WriteError, (broken :: metric supervisor)\<lparr>phase := Crashed, gen := None\<rparr>)"
proof -
  have h: "\<not> alive (init :: metric supervisor)"
    by (simp add: alive_def init_def)
  have "snd (Submit_sample (\<lambda>m. m) (test_metric 1) (init :: metric supervisor)) = init"
    by (simp add: Submit_sample_def init_def)
  with Submit_rejected_without_generation [OF h, of "\<lambda>m. m" "test_metric 1"]
  have s: "Submit_sample (\<lambda>m. m) (test_metric 1) (init :: metric supervisor)
             = (Inl WriteError, init)"
    by (simp add: prod_eq_iff)
  have h': "\<not> alive (broken :: metric supervisor)"
    by (simp add: alive_def broken_def)
  have "snd (Submit_sample (\<lambda>m. m) (test_metric 1) (broken :: metric supervisor))
          = broken\<lparr>phase := Crashed, gen := None\<rparr>"
    by (simp add: Submit_sample_def broken_def crashed_def)
  with Submit_rejected_without_generation [OF h', of "\<lambda>m. m" "test_metric 1"]
  have s': "Submit_sample (\<lambda>m. m) (test_metric 1) (broken :: metric supervisor)
              = (Inl WriteError, broken\<lparr>phase := Crashed, gen := None\<rparr>)"
    by (simp add: prod_eq_iff)
  from h s h' s' show ?thesis
    by blast
qed

end
